theory Spec2Isabelle
  imports Complex_Main "HOL-Library.Multiset" "HOL-Library.List_Lexorder"
begin

section \<open>The evaluator of t5/evaluation/evaluator.py\<close>

subsection \<open>Python values, exceptions and effects\<close>

text \<open>The exceptions the evaluator module can raise by itself.\<close>

datatype py_error =
    IndexError | KeyError | ValueError | TypeError | AttributeError | UnboundLocalError

text \<open>
  A component of a tuple returned by \<open>predict_fn\<close>: an integer (the index) or a sequence of
  integers (the token ids). An element of the predictor's result is a Python tuple of any
  length, written as the list of its components.
\<close>

datatype pyval = PyInt int | PyList "int list"

type_synonym element = "pyval list"

text \<open>A \<open>Mapping[str, int]\<close> of sequence lengths, as its items.\<close>

type_synonym lengths = "(string \<times> int) list"

text \<open>
  What the module does besides computing values: the log lines, the calls of the pluggable
  collaborators (feature converter, predictor, vocabulary, post-processor, metric functions)
  and the writes to the summary writer, in the order they happen.
\<close>

datatype 'm event =
    LogWarningNoEvalTask
  | LogInfoSetLengths lengths
  | LogWarningInsufficient lengths lengths
  | LogWarningWasted lengths lengths
  | FeatureConvert string
  | Predict string
  | Decode string
  | Postprocess string
  | MetricFn string
  | LogWarningNoStep
  | LogInfoMetric string int 'm
  | AddSummary string 'm int
  | Flush

text \<open>An effectful computation: the events emitted, then the exception raised or the value.\<close>

type_synonym ('m, 'a) eff = "'m event list \<times> (py_error + 'a)"

definition eff_bind :: "('m, 'a) eff \<Rightarrow> ('a \<Rightarrow> ('m, 'b) eff) \<Rightarrow> ('m, 'b) eff" where
  "eff_bind c f =
     (case snd c of
        Inl e \<Rightarrow> (fst c, Inl e)
      | Inr v \<Rightarrow> (fst c @ fst (f v), snd (f v)))"

definition err_bind :: "py_error + 'a \<Rightarrow> ('a \<Rightarrow> py_error + 'b) \<Rightarrow> py_error + 'b" where
  "err_bind c f = (case c of Inl e \<Rightarrow> Inl e | Inr v \<Rightarrow> f v)"

text \<open>A list comprehension whose body may raise: it stops at the first exception.\<close>

fun map_err :: "('a \<Rightarrow> py_error + 'b) \<Rightarrow> 'a list \<Rightarrow> py_error + 'b list" where
  "map_err f [] = Inr []"
| "map_err f (x # xs) =
     (case f x of
        Inl e \<Rightarrow> Inl e
      | Inr y \<Rightarrow> (case map_err f xs of Inl e \<Rightarrow> Inl e | Inr ys \<Rightarrow> Inr (y # ys)))"

text \<open>\<open>x[i]\<close> on a tuple, for a non-negative \<open>i\<close>.\<close>

definition getitem :: "element \<Rightarrow> nat \<Rightarrow> py_error + pyval" where
  "getitem x i = (if i < length x then Inr (x ! i) else Inl IndexError)"

text \<open>\<open>d[k]\<close> on a dictionary.\<close>

definition lookup :: "('k \<rightharpoonup> 'a) \<Rightarrow> 'k \<Rightarrow> py_error + 'a" where
  "lookup d k = (case d k of None \<Rightarrow> Inl KeyError | Some v \<Rightarrow> Inr v)"

subsection \<open>Tasks and the evaluator object\<close>

text \<open>
  What the evaluator uses of a \<open>t5.data.Task\<close>: its name, the \<open>decode\<close> of the vocabulary of
  its \<open>targets\<close> output feature, its \<open>postprocess_fn(decoded, example, is_target)\<close> and its
  metric functions, each returning a mapping from metric names to values (as its items).
\<close>

record ('v, 'ex, 'm) task =
  name :: string
  decode :: "int list \<Rightarrow> 'v"
  postprocess_fn :: "'v \<Rightarrow> 'ex \<Rightarrow> bool \<Rightarrow> 'v"
  metric_fns :: "('v list \<Rightarrow> 'v list \<Rightarrow> (string \<times> 'm) list) list"

text \<open>
  The attributes of an \<open>Evaluator\<close>. \<open>_eval_tasks\<close> is assigned on every path of the
  constructor; each other attribute is \<open>None\<close> here while the constructor has not assigned it.
  The summary writer is identified by its directory.
\<close>

record ('v, 'ex, 'm, 'f) evaluator =
  attr_eval_tasks :: "('v, 'ex, 'm) task list"
  attr_cached_ds :: "(string \<rightharpoonup> (nat \<times> 'f) list) option"
  attr_cached_examples :: "(string \<rightharpoonup> 'ex list) option"
  attr_cached_targets :: "(string \<rightharpoonup> 'v list) option"
  attr_summary_writer :: "string option"

text \<open>Reading an attribute that was never assigned raises \<open>AttributeError\<close>.\<close>

definition getattr :: "'a option \<Rightarrow> py_error + 'a" where
  "getattr a = (case a of None \<Rightarrow> Inl AttributeError | Some v \<Rightarrow> Inr v)"

definition eval_tasks :: "('v, 'ex, 'm, 'f) evaluator \<Rightarrow> ('v, 'ex, 'm) task list" where
  "eval_tasks ev = attr_eval_tasks ev"

definition cached_ds ::
  "('v, 'ex, 'm, 'f) evaluator \<Rightarrow> py_error + (string \<rightharpoonup> (nat \<times> 'f) list)" where
  "cached_ds ev = getattr (attr_cached_ds ev)"

definition cached_examples ::
  "('v, 'ex, 'm, 'f) evaluator \<Rightarrow> py_error + (string \<rightharpoonup> 'ex list)" where
  "cached_examples ev = getattr (attr_cached_examples ev)"

definition cached_targets ::
  "('v, 'ex, 'm, 'f) evaluator \<Rightarrow> py_error + (string \<rightharpoonup> 'v list)" where
  "cached_targets ev = getattr (attr_cached_targets ev)"

definition summary_writer :: "('v, 'ex, 'm, 'f) evaluator \<Rightarrow> py_error + string" where
  "summary_writer ev = getattr (attr_summary_writer ev)"

subsection \<open>The constructor\<close>

text \<open>
  The two comparisons of lines 111-112 and 120-121. \<open>or\<close> evaluates its second operand only
  when the first is false; a missing key raises \<open>KeyError\<close>.
\<close>

definition lengths_less :: "lengths \<Rightarrow> lengths \<Rightarrow> py_error + bool" where
  "lengths_less sequence_lengths max_lengths =
     err_bind (lookup (map_of sequence_lengths) ''inputs'') (\<lambda>si.
     err_bind (lookup (map_of max_lengths) ''inputs'') (\<lambda>mi.
       if si < mi then Inr True
       else
         err_bind (lookup (map_of sequence_lengths) ''targets'') (\<lambda>st.
         err_bind (lookup (map_of max_lengths) ''targets'') (\<lambda>mt. Inr (st < mt)))))"

definition lengths_greater :: "lengths \<Rightarrow> lengths \<Rightarrow> py_error + bool" where
  "lengths_greater sequence_lengths max_lengths =
     err_bind (lookup (map_of sequence_lengths) ''inputs'') (\<lambda>si.
     err_bind (lookup (map_of max_lengths) ''inputs'') (\<lambda>mi.
       if si > mi then Inr True
       else
         err_bind (lookup (map_of sequence_lengths) ''targets'') (\<lambda>st.
         err_bind (lookup (map_of max_lengths) ''targets'') (\<lambda>mt. Inr (st > mt)))))"

text \<open>
  Lines 108-128: the \<open>if\<close>/\<open>elif\<close>/\<open>elif\<close> chain that assigns the local variable
  \<open>lengths\<close>. The chain has no \<open>else\<close>: the value is \<open>None\<close> when no branch assigned the
  variable.
\<close>

definition reconcile_lengths :: "lengths option \<Rightarrow> lengths \<Rightarrow> ('m, lengths option) eff" where
  "reconcile_lengths sequence_lengths max_lengths =
     (case sequence_lengths of
        None \<Rightarrow> ([LogInfoSetLengths max_lengths], Inr (Some max_lengths))
      | Some sl \<Rightarrow>
          (case lengths_less sl max_lengths of
             Inl e \<Rightarrow> ([], Inl e)
           | Inr True \<Rightarrow> ([LogWarningInsufficient sl max_lengths], Inr (Some sl))
           | Inr False \<Rightarrow>
               (case lengths_greater sl max_lengths of
                  Inl e \<Rightarrow> ([], Inl e)
                | Inr True \<Rightarrow> ([LogWarningWasted sl max_lengths], Inr (Some sl))
                | Inr False \<Rightarrow> ([], Inr None))))"

text \<open>
  Lines 130-141: the loop that converts, enumerates and caches the dataset of each task. The
  arguments of \<open>feature_converter\<close> are evaluated from left to right: the dataset of the task
  first, the local variable \<open>lengths\<close> second, which raises \<open>UnboundLocalError\<close> when it was
  never assigned.
\<close>

fun convert_tasks ::
  "('ex list \<Rightarrow> lengths \<Rightarrow> 'f list) \<Rightarrow> (string \<rightharpoonup> 'ex list) \<Rightarrow> lengths option \<Rightarrow>
   ('v, 'ex, 'm) task list \<Rightarrow> (string \<rightharpoonup> (nat \<times> 'f) list) \<Rightarrow>
   ('m, string \<rightharpoonup> (nat \<times> 'f) list) eff" where
  "convert_tasks feature_converter task_datasets lens [] cds = ([], Inr cds)"
| "convert_tasks feature_converter task_datasets lens (t # ts) cds =
     (case lookup task_datasets (name t) of
        Inl e \<Rightarrow> ([], Inl e)
      | Inr raw \<Rightarrow>
          (case lens of
             None \<Rightarrow> ([], Inl UnboundLocalError)
           | Some ls \<Rightarrow>
               eff_bind
                 ([FeatureConvert (name t)],
                  Inr (cds(name t \<mapsto> enumerate 0 (feature_converter raw ls))))
                 (convert_tasks feature_converter task_datasets lens ts)))"

text \<open>\<open>if summary_dir:\<close> holds for a string that is neither \<open>None\<close> nor empty.\<close>

definition truthy :: "string option \<Rightarrow> bool" where
  "truthy s = (case s of None \<Rightarrow> False | Some d \<Rightarrow> d \<noteq> [])"

text \<open>
  \<open>Evaluator.__init__\<close>. \<open>valid_tasks\<close> is what \<open>get_valid_eval_tasks\<close> returned for the
  requested mixture or task and split; \<open>get_targets_and_examples\<close> is the function of
  \<open>t5.models.utils\<close>, which returns the cached examples, the cached targets, the datasets
  of the tasks and the maximal lengths observed.
\<close>

definition init ::
  "('v, 'ex, 'm) task list \<Rightarrow>
   (('v, 'ex, 'm) task list \<Rightarrow>
      (string \<rightharpoonup> 'ex list) \<times> (string \<rightharpoonup> 'v list) \<times> (string \<rightharpoonup> 'ex list) \<times> lengths) \<Rightarrow>
   ('ex list \<Rightarrow> lengths \<Rightarrow> 'f list) \<Rightarrow> lengths option \<Rightarrow> string option \<Rightarrow>
   ('m, ('v, 'ex, 'm, 'f) evaluator) eff" where
  "init valid_tasks get_targets_and_examples feature_converter sequence_lengths summary_dir =
     (if valid_tasks = [] then
        ([LogWarningNoEvalTask],
         Inr \<lparr>attr_eval_tasks = valid_tasks, attr_cached_ds = None,
              attr_cached_examples = None, attr_cached_targets = None,
              attr_summary_writer = None\<rparr>)
      else
        (case get_targets_and_examples valid_tasks of
           (examples, targets, task_datasets, max_lengths) \<Rightarrow>
             eff_bind (reconcile_lengths sequence_lengths max_lengths) (\<lambda>lens.
             eff_bind (convert_tasks feature_converter task_datasets lens valid_tasks Map.empty)
               (\<lambda>cds.
                 ([],
                  Inr \<lparr>attr_eval_tasks = valid_tasks, attr_cached_ds = Some cds,
                       attr_cached_examples = Some examples,
                       attr_cached_targets = Some targets,
                       attr_summary_writer =
                         (if truthy summary_dir then summary_dir else None)\<rparr>)))))"

subsection \<open>Restoring the order of the predictions\<close>

text \<open>The keys of a sort are compared with each other: all integers, or all sequences.\<close>

fun as_ints :: "pyval list \<Rightarrow> int list option" where
  "as_ints [] = Some []"
| "as_ints (PyInt i # vs) = map_option (Cons i) (as_ints vs)"
| "as_ints (PyList l # vs) = None"

fun as_lists :: "pyval list \<Rightarrow> int list list option" where
  "as_lists [] = Some []"
| "as_lists (PyList l # vs) = map_option (Cons l) (as_lists vs)"
| "as_lists (PyInt i # vs) = None"

text \<open>
  \<open>sorted(xs, key=lambda x: x[0])\<close>: the keys of all elements are computed first, in the
  order of the list; a list of fewer than two elements is not compared at all; integers are
  compared as integers and sequences of integers lexicographically, while comparing an
  integer with a sequence raises \<open>TypeError\<close>. The sort is stable, as \<open>sort_key\<close> is.
\<close>

definition sorted_by_first :: "element list \<Rightarrow> py_error + element list" where
  "sorted_by_first xs =
     (case map_err (\<lambda>x. getitem x 0) xs of
        Inl e \<Rightarrow> Inl e
      | Inr ks \<Rightarrow>
          if length ks \<le> 1 then Inr xs
          else
            (case as_ints ks of
               Some is \<Rightarrow> Inr (map snd (sort_key fst (zip is xs)))
             | None \<Rightarrow>
                 (case as_lists ks of
                    Some ls \<Rightarrow> Inr (map snd (sort_key fst (zip ls xs)))
                  | None \<Rightarrow> Inl TypeError)))"

text \<open>
  Lines 208-214, applied to what \<open>predict_fn\<close> returned for one task: the first element is
  read and its length compared with 2, then the elements are sorted by their first component
  and the second component of each is kept.
\<close>

definition restore_order :: "element list \<Rightarrow> py_error + pyval list" where
  "restore_order indices_and_output_tokens =
     (case indices_and_output_tokens of
        [] \<Rightarrow> Inl IndexError
      | first # rest \<Rightarrow>
          if length first \<noteq> 2 then Inl ValueError
          else
            err_bind (sorted_by_first indices_and_output_tokens)
              (map_err (\<lambda>x. getitem x 1)))"

subsection \<open>Evaluation\<close>

text \<open>Lines 206-214 for one task: the attribute and the dictionary are read, then the
  predictor is called on the cached dataset.\<close>

definition cached_ds_of ::
  "('v, 'ex, 'm, 'f) evaluator \<Rightarrow> ('v, 'ex, 'm) task \<Rightarrow> py_error + (nat \<times> 'f) list" where
  "cached_ds_of ev t = err_bind (cached_ds ev) (\<lambda>ds. lookup ds (name t))"

text \<open>Lines 205-214: the first loop of \<open>evaluate\<close>, which fills \<open>all_output_tokens\<close>.\<close>

fun predict_tasks ::
  "('v, 'ex, 'm, 'f) evaluator \<Rightarrow> ((nat \<times> 'f) list \<Rightarrow> element list) \<Rightarrow>
   ('v, 'ex, 'm) task list \<Rightarrow> (string \<rightharpoonup> pyval list) \<Rightarrow> ('m, string \<rightharpoonup> pyval list) eff" where
  "predict_tasks ev predict_fn [] all_output_tokens = ([], Inr all_output_tokens)"
| "predict_tasks ev predict_fn (t # ts) all_output_tokens =
     (case cached_ds_of ev t of
        Inl e \<Rightarrow> ([], Inl e)
      | Inr ds \<Rightarrow>
          eff_bind ([Predict (name t)], restore_order (predict_fn ds)) (\<lambda>toks.
            predict_tasks ev predict_fn ts (all_output_tokens(name t \<mapsto> toks))))"

text \<open>Lines 226-229: \<open>[int(token) for token in tokens]\<close> iterates over the output, which
  raises \<open>TypeError\<close> for an integer; the vocabulary decodes the list.\<close>

fun decode_outputs :: "('v, 'ex, 'm) task \<Rightarrow> pyval list \<Rightarrow> ('m, 'v list) eff" where
  "decode_outputs t [] = ([], Inr [])"
| "decode_outputs t (PyInt i # rest) = ([], Inl TypeError)"
| "decode_outputs t (PyList tokens # rest) =
     eff_bind ([Decode (name t)], Inr (decode t tokens)) (\<lambda>d.
     eff_bind (decode_outputs t rest) (\<lambda>ds. ([], Inr (d # ds))))"

text \<open>Lines 230-233: \<open>zip\<close> stops at the end of the shorter of the two lists.\<close>

definition postprocess_outputs ::
  "('v, 'ex, 'm) task \<Rightarrow> 'v list \<Rightarrow> 'ex list \<Rightarrow> ('m, 'v list) eff" where
  "postprocess_outputs t outputs task_examples =
     (map (\<lambda>_. Postprocess (name t)) (zip outputs task_examples),
      Inr (map (\<lambda>(d, ex). postprocess_fn t d ex False) (zip outputs task_examples)))"

text \<open>Lines 235-237.\<close>

definition apply_metric_fns ::
  "('v, 'ex, 'm) task \<Rightarrow> 'v list \<Rightarrow> 'v list \<Rightarrow> ('m, (string \<times> 'm) list list) eff" where
  "apply_metric_fns t targets predictions =
     (map (\<lambda>_. MetricFn (name t)) (metric_fns t),
      Inr (map (\<lambda>metric_fn. metric_fn targets predictions) (metric_fns t)))"

text \<open>
  Lines 253-263: the body of the two nested loops of \<open>_log_eval_results\<close>, over the items
  of all metric mappings in order. The property \<open>summary_writer\<close> is read before the line is
  logged; a writer object is true.
\<close>

fun log_items ::
  "('v, 'ex, 'm, 'f) evaluator \<Rightarrow> int \<Rightarrow> string \<Rightarrow> (string \<times> 'm) list \<Rightarrow> ('m, unit) eff" where
  "log_items ev step task_name [] = ([], Inr ())"
| "log_items ev step task_name ((metric_name, metric_value) # rest) =
     (case summary_writer ev of
        Inl e \<Rightarrow> ([], Inl e)
      | Inr w \<Rightarrow>
          eff_bind
            ([LogInfoMetric (''eval/'' @ task_name @ ''/'' @ metric_name) step metric_value,
              AddSummary (''eval/'' @ task_name @ ''/'' @ metric_name) metric_value step],
             Inr ())
            (\<lambda>_. log_items ev step task_name rest))"

text \<open>\<open>_log_eval_results\<close>, lines 245-266.\<close>

definition log_eval_results ::
  "('v, 'ex, 'm, 'f) evaluator \<Rightarrow> (string \<times> 'm) list list \<Rightarrow> int option \<Rightarrow> string \<Rightarrow>
   ('m, unit) eff" where
  "log_eval_results ev task_metrics step task_name =
     eff_bind
       (case step of None \<Rightarrow> ([LogWarningNoStep], Inr (- 1)) | Some s \<Rightarrow> ([], Inr s))
       (\<lambda>step'.
     eff_bind (log_items ev step' task_name (concat task_metrics)) (\<lambda>_.
       (case summary_writer ev of
          Inl e \<Rightarrow> ([], Inl e)
        | Inr w \<Rightarrow> ([Flush], Inr ()))))"

text \<open>Lines 219-240: the body of the second loop, for one task.\<close>

definition task_metrics ::
  "('v, 'ex, 'm, 'f) evaluator \<Rightarrow> int option \<Rightarrow> (string \<rightharpoonup> pyval list) \<Rightarrow>
   ('v, 'ex, 'm) task \<Rightarrow> ('m, (string \<times> 'm) list list) eff" where
  "task_metrics ev step all_output_tokens t =
     eff_bind ([], err_bind (cached_examples ev) (\<lambda>ce. lookup ce (name t))) (\<lambda>task_examples.
     eff_bind ([], err_bind (cached_targets ev) (\<lambda>ct. lookup ct (name t))) (\<lambda>targets.
     eff_bind ([], lookup all_output_tokens (name t)) (\<lambda>output_tokens.
     eff_bind (decode_outputs t output_tokens) (\<lambda>outputs.
     eff_bind (postprocess_outputs t outputs task_examples) (\<lambda>predictions.
     eff_bind (apply_metric_fns t targets predictions) (\<lambda>metrics.
     eff_bind (log_eval_results ev metrics step (name t)) (\<lambda>_.
       ([], Inr metrics))))))))"

text \<open>Lines 218-240: the second loop, which fills \<open>all_metrics\<close>.\<close>

fun metrics_tasks ::
  "('v, 'ex, 'm, 'f) evaluator \<Rightarrow> int option \<Rightarrow> (string \<rightharpoonup> pyval list) \<Rightarrow>
   ('v, 'ex, 'm) task list \<Rightarrow> (string \<rightharpoonup> (string \<times> 'm) list list) \<Rightarrow>
   ('m, string \<rightharpoonup> (string \<times> 'm) list list) eff" where
  "metrics_tasks ev step all_output_tokens [] all_metrics = ([], Inr all_metrics)"
| "metrics_tasks ev step all_output_tokens (t # ts) all_metrics =
     eff_bind (task_metrics ev step all_output_tokens t) (\<lambda>metrics.
       metrics_tasks ev step all_output_tokens ts (all_metrics(name t \<mapsto> metrics)))"

text \<open>\<open>Evaluator.evaluate\<close>, lines 202-242.\<close>

definition evaluate ::
  "('v, 'ex, 'm, 'f) evaluator \<Rightarrow> bool \<Rightarrow> int option \<Rightarrow> ((nat \<times> 'f) list \<Rightarrow> element list) \<Rightarrow>
   ('m, (string \<rightharpoonup> pyval list) \<times> (string \<rightharpoonup> (string \<times> 'm) list list) option) eff" where
  "evaluate ev compute_metrics step predict_fn =
     eff_bind (predict_tasks ev predict_fn (eval_tasks ev) Map.empty) (\<lambda>all_output_tokens.
       if compute_metrics then
         eff_bind (metrics_tasks ev step all_output_tokens (eval_tasks ev) Map.empty)
           (\<lambda>all_metrics. ([], Inr (all_output_tokens, Some all_metrics)))
       else ([], Inr (all_output_tokens, None)))"


subsection \<open>Notions used to state the properties\<close>

text \<open>A well-formed element of the predictor's result: an index and a sequence of token ids.\<close>

fun is_pair :: "element \<Rightarrow> bool" where
  "is_pair [PyInt i, PyList ts] = True"
| "is_pair x = False"

fun index_of :: "element \<Rightarrow> int" where
  "index_of (PyInt i # rest) = i"
| "index_of x = 0"

fun tokens_of :: "element \<Rightarrow> pyval" where
  "tokens_of (a # b # rest) = b"
| "tokens_of x = PyList []"

fun token_ids :: "pyval \<Rightarrow> int list" where
  "token_ids (PyList ts) = ts"
| "token_ids (PyInt i) = []"


text \<open>What lines 206-214 compute for one task: the exception raised or the restored outputs.\<close>

definition task_tokens ::
  "('v, 'ex, 'm, 'f) evaluator \<Rightarrow> ((nat \<times> 'f) list \<Rightarrow> element list) \<Rightarrow> ('v, 'ex, 'm) task \<Rightarrow>
   py_error + pyval list" where
  "task_tokens ev predict_fn t = err_bind (cached_ds_of ev t) (\<lambda>d. restore_order (predict_fn d))"



text \<open>Lines 219-220 for one task: the cached examples and the cached targets.\<close>

definition cached_examples_of ::
  "('v, 'ex, 'm, 'f) evaluator \<Rightarrow> ('v, 'ex, 'm) task \<Rightarrow> py_error + 'ex list" where
  "cached_examples_of ev t = err_bind (cached_examples ev) (\<lambda>ce. lookup ce (name t))"

definition cached_targets_of ::
  "('v, 'ex, 'm, 'f) evaluator \<Rightarrow> ('v, 'ex, 'm) task \<Rightarrow> py_error + 'v list" where
  "cached_targets_of ev t = err_bind (cached_targets ev) (\<lambda>ct. lookup ct (name t))"

fun is_token_list :: "pyval \<Rightarrow> bool" where
  "is_token_list (PyList ts) = True"
| "is_token_list (PyInt i) = False"

text \<open>
  The predictions of a task as the specification describes them: each restored token
  sequence is decoded with the vocabulary of the task, and each decoded output is
  post-processed with the cached example at the same position, \<open>is_target\<close> being false.
\<close>

definition task_predictions :: "('v, 'ex, 'm) task \<Rightarrow> pyval list \<Rightarrow> 'ex list \<Rightarrow> 'v list" where
  "task_predictions t toks exs =
     map (\<lambda>(tk, ex). postprocess_fn t (decode t (token_ids tk)) ex False) (zip toks exs)"

subsection \<open>A small task, for concrete runs\<close>

text \<open>
  Modelled from the spec: an exact-match metric function. Metric functions belong to the
  tasks, outside the evaluator module; this one reports, under the name \<open>accuracy\<close>, the
  fraction of the targets that the prediction at the same position equals.
\<close>

definition exact_match :: "'v list \<Rightarrow> 'v list \<Rightarrow> (string \<times> real) list" where
  "exact_match targets predictions =
     [(''accuracy'',
       real (length (filter (\<lambda>(t, p). t = p) (zip targets predictions))) /
       real (length targets))]"

text \<open>A vocabulary of four words, a task that uses it, and the evaluator of that task.\<close>

definition toy_decode :: "int list \<Rightarrow> string" where
  "toy_decode tokens =
     concat (map (\<lambda>i. if i = 1 then ''a'' else if i = 2 then ''b'' else if i = 3 then ''c''
                       else ''x'') tokens)"

definition toy_task :: "(string, string, real) task" where
  "toy_task =
     \<lparr>name = ''toy'', decode = toy_decode, postprocess_fn = (\<lambda>d ex is_target. d),
      metric_fns = [exact_match]\<rparr>"

definition toy_evaluator :: "(string, string, real, string) evaluator" where
  "toy_evaluator =
     \<lparr>attr_eval_tasks = [toy_task],
      attr_cached_ds = Some [''toy'' \<mapsto> enumerate 0 [''f0'', ''f1'', ''f2'']],
      attr_cached_examples = Some [''toy'' \<mapsto> [''e0'', ''e1'', ''e2'']],
      attr_cached_targets = Some [''toy'' \<mapsto> [''a'', ''b'', ''c'']],
      attr_summary_writer = Some ''summaries''\<rparr>"



text \<open>What the constructor is given for the small task.\<close>

definition toy_get_targets_and_examples ::
  "(string, string, real) task list \<Rightarrow>
   (string \<rightharpoonup> string list) \<times> (string \<rightharpoonup> string list) \<times> (string \<rightharpoonup> string list) \<times> lengths" where
  "toy_get_targets_and_examples tasks =
     ([''toy'' \<mapsto> [''e0'', ''e1'', ''e2'']], [''toy'' \<mapsto> [''a'', ''b'', ''c'']],
      [''toy'' \<mapsto> [''e0'', ''e1'', ''e2'']], [(''inputs'', 10), (''targets'', 5)])"

definition toy_feature_converter :: "string list \<Rightarrow> lengths \<Rightarrow> string list" where
  "toy_feature_converter raw lens = map (\<lambda>ex. CHR ''f'' # tl ex) raw"

definition malformed_predict_fn :: "(nat \<times> string) list \<Rightarrow> element list" where
  "malformed_predict_fn ds = [[PyInt 0, PyList [1]], [PyInt 1, PyList [2], PyInt 9]]"

definition empty_predict_fn :: "(nat \<times> string) list \<Rightarrow> element list" where
  "empty_predict_fn ds = []"

definition short_first_predict_fn :: "(nat \<times> string) list \<Rightarrow> element list" where
  "short_first_predict_fn ds = [[PyInt 0], [PyInt 1, PyList [2]]]"

definition extra_predict_fn :: "(nat \<times> string) list \<Rightarrow> element list" where
  "extra_predict_fn ds =
     [[PyInt 99, PyList [3]], [PyInt 0, PyList [1]], [PyInt 1, PyList [2]],
      [PyInt (- 5), PyList [24]]]"

section \<open>Properties\<close>

subsection \<open>Effects and errors\<close>

lemma eff_bind_Inl [simp]: "eff_bind (tr, Inl e) f = (tr, Inl e)"
  by (simp add: eff_bind_def)

lemma eff_bind_Inr [simp]: "eff_bind (tr, Inr v) f = (tr @ fst (f v), snd (f v))"
  by (simp add: eff_bind_def)

lemma snd_eff_bind: "snd (eff_bind c f) = (case snd c of Inl e \<Rightarrow> Inl e | Inr v \<Rightarrow> snd (f v))"
  by (simp add: eff_bind_def split: sum.splits)

lemma err_bind_simps [simp]: "err_bind (Inl e) f = Inl e" "err_bind (Inr v) f = f v"
  by (simp_all add: err_bind_def)

subsection \<open>Well-formed results of the predictor\<close>

lemma is_pair_items:
  "is_pair x \<Longrightarrow>
     length x = 2 \<and> getitem x 0 = Inr (PyInt (index_of x)) \<and> getitem x 1 = Inr (tokens_of x)"
  by (induction x rule: is_pair.induct) (simp_all add: getitem_def)

lemma is_pair_tokens: "is_pair x \<Longrightarrow> PyList (token_ids (tokens_of x)) = tokens_of x"
  by (induction x rule: is_pair.induct) simp_all

lemma map_err_total: "(\<And>x. x \<in> set xs \<Longrightarrow> f x = Inr (g x)) \<Longrightarrow> map_err f xs = Inr (map g xs)"
  by (induction xs) simp_all

lemma as_ints_map: "as_ints (map (\<lambda>x. PyInt (f x)) xs) = Some (map f xs)"
  by (induction xs) simp_all

lemma insort_key_zip:
  "map snd (insort_key fst (f x, x) (zip (map f ys) ys)) = insort_key f x ys \<and>
   insort_key fst (f x, x) (zip (map f ys) ys) = zip (map f (insort_key f x ys)) (insort_key f x ys)"
  by (induction ys) auto

lemma sort_key_zip:
  "sort_key fst (zip (map f xs) xs) = zip (map f (sort_key f xs)) (sort_key f xs)"
  by (induction xs) (simp_all add: insort_key_zip)

lemma sort_key_decorated: "map snd (sort_key fst (zip (map f xs) xs)) = sort_key f xs"
  by (simp add: sort_key_zip)

lemma sort_key_short: "length xs \<le> 1 \<Longrightarrow> sort_key f xs = xs"
  by (cases xs) auto

lemma sorted_by_first_pairs:
  assumes "list_all is_pair r"
  shows "sorted_by_first r = Inr (sort_key index_of r)"
proof -
  have k: "map_err (\<lambda>x. getitem x 0) r = Inr (map (\<lambda>x. PyInt (index_of x)) r)"
  proof (rule map_err_total)
    fix x assume "x \<in> set r"
    with assms have "is_pair x" by (simp add: list_all_iff)
    then show "getitem x 0 = Inr (PyInt (index_of x))" using is_pair_items [of x] by simp
  qed
  show ?thesis
    by (simp add: sorted_by_first_def k as_ints_map sort_key_decorated sort_key_short)
qed

lemma restore_order_pairs:
  assumes "r \<noteq> []" and "list_all is_pair r"
  shows "restore_order r = Inr (map tokens_of (sort_key index_of r))"
proof -
  obtain x xs where r: "r = x # xs" using assms(1) by (cases r) auto
  with assms(2) have "is_pair x" by simp
  then have len: "length x = 2" using is_pair_items [of x] by simp
  have m: "map_err (\<lambda>x. getitem x 1) (sort_key index_of r) =
      Inr (map tokens_of (sort_key index_of r))"
  proof (rule map_err_total)
    fix y assume "y \<in> set (sort_key index_of r)"
    with assms(2) have "is_pair y" by (simp add: list_all_iff)
    then show "getitem y 1 = Inr (tokens_of y)" using is_pair_items [of y] by simp
  qed
  have "restore_order r = err_bind (sorted_by_first r) (map_err (\<lambda>x. getitem x 1))"
    unfolding r restore_order_def using len by simp
  also have "\<dots> = Inr (map tokens_of (sort_key index_of r))"
    by (simp only: sorted_by_first_pairs [OF assms(2)] err_bind_simps m)
  finally show ?thesis .
qed

subsection \<open>Sorting restores the order\<close>








subsection \<open>The first loop of evaluate\<close>





lemma eff_bind_assoc: "eff_bind (eff_bind c f) g = eff_bind c (\<lambda>v. eff_bind (f v) g)"
  by (cases "snd c") (auto simp: eff_bind_def split: sum.splits)


lemma predict_tasks_append:
  "predict_tasks ev pf (pre @ rest) out =
     eff_bind (predict_tasks ev pf pre out) (predict_tasks ev pf rest)"
proof (induction pre arbitrary: out)
  case Nil
  show ?case by (simp add: eff_bind_def)
next
  case (Cons t pre)
  show ?case
    by (cases "cached_ds_of ev t") (simp_all add: Cons.IH eff_bind_assoc del: fun_upd_apply)
qed

lemma predict_tasks_ok:
  assumes "\<And>t. t \<in> set ts \<Longrightarrow> task_tokens ev pf t = Inr (R t)"
  shows "predict_tasks ev pf ts out =
           (map (\<lambda>t. Predict (name t)) ts, Inr (fold (\<lambda>t m. m(name t \<mapsto> R t)) ts out))"
  using assms
proof (induction ts arbitrary: out)
  case Nil
  show ?case by simp
next
  case (Cons t ts)
  have "task_tokens ev pf t = Inr (R t)" using Cons.prems by simp
  then obtain d where d: "cached_ds_of ev t = Inr d" and r: "restore_order (pf d) = Inr (R t)"
    by (cases "cached_ds_of ev t") (simp_all add: task_tokens_def)
  have rest: "predict_tasks ev pf ts out' =
      (map (\<lambda>t. Predict (name t)) ts, Inr (fold (\<lambda>t m. m(name t \<mapsto> R t)) ts out'))" for out'
  proof (rule Cons.IH)
    fix t' assume "t' \<in> set ts"
    then show "task_tokens ev pf t' = Inr (R t')" using Cons.prems [of t'] by simp
  qed
  show ?case by (simp add: d r rest del: fun_upd_apply)
qed

lemma predict_tasks_fail:
  assumes "\<And>t'. t' \<in> set pre \<Longrightarrow> task_tokens ev pf t' = Inr (R t')"
    and "cached_ds_of ev t = Inr d" and "restore_order (pf d) = Inl e"
  shows "predict_tasks ev pf (pre @ t # post) out =
           (map (\<lambda>t. Predict (name t)) pre @ [Predict (name t)], Inl e)"
proof -
  have "predict_tasks ev pf (t # post) out' = ([Predict (name t)], Inl e)" for out'
    using assms(2,3) by simp
  then show ?thesis
    by (simp add: predict_tasks_append predict_tasks_ok [of pre ev pf R, OF assms(1)])
qed


lemma fold_upd_other:
  "k \<notin> name ` set ts \<Longrightarrow> fold (\<lambda>t m. m(name t \<mapsto> R t)) ts out k = out k"
proof (induction ts arbitrary: out)
  case Nil
  show ?case by simp
next
  case (Cons a ts)
  have "fold (\<lambda>t m. m(name t \<mapsto> R t)) (a # ts) out k =
        fold (\<lambda>t m. m(name t \<mapsto> R t)) ts (out(name a \<mapsto> R a)) k"
    by (simp del: fun_upd_apply)
  also have "\<dots> = (out(name a \<mapsto> R a)) k" using Cons.prems by (intro Cons.IH) simp
  also have "\<dots> = out k" using Cons.prems by simp
  finally show ?case .
qed

lemma fold_upd_distinct:
  "distinct (map name ts) \<Longrightarrow> t \<in> set ts \<Longrightarrow>
     fold (\<lambda>t m. m(name t \<mapsto> R t)) ts out (name t) = Some (R t)"
proof (induction ts arbitrary: out)
  case Nil
  then show ?case by simp
next
  case (Cons a ts)
  have step: "fold (\<lambda>t m. m(name t \<mapsto> R t)) (a # ts) out (name t) =
        fold (\<lambda>t m. m(name t \<mapsto> R t)) ts (out(name a \<mapsto> R a)) (name t)"
    by (simp del: fun_upd_apply)
  show ?case
  proof (cases "t = a")
    case True
    have na: "name a \<notin> name ` set ts" using Cons.prems(1) by simp
    have "fold (\<lambda>t m. m(name t \<mapsto> R t)) (a # ts) out (name a) =
        fold (\<lambda>t m. m(name t \<mapsto> R t)) ts (out(name a \<mapsto> R a)) (name a)"
      by (simp del: fun_upd_apply)
    also have "\<dots> = (out(name a \<mapsto> R a)) (name a)" using na by (rule fold_upd_other)
    also have "\<dots> = Some (R a)" by simp
    finally show ?thesis by (simp only: True)
  next
    case False
    then have "t \<in> set ts" "distinct (map name ts)" using Cons.prems by simp_all
    then show ?thesis unfolding step by (intro Cons.IH)
  qed
qed



subsection \<open>The restored order does not depend on the order of the result\<close>


lemma upt_3: "[0..<3] = [0, 1, 2]"
  by (simp add: upt_rec)

lemma toy_cached_ds_of:
  "cached_ds_of toy_evaluator toy_task = Inr [(0, ''f0''), (1, ''f1''), (2, ''f2'')]"
  by (simp add: cached_ds_of_def cached_ds_def getattr_def lookup_def toy_evaluator_def
      toy_task_def enumerate_eq_zip upt_3)


subsection \<open>The constructor\<close>

lemma fold_upd_same_value:
  assumes "t \<in> set ts" and "\<And>t'. t' \<in> set ts \<Longrightarrow> name t' = name t \<Longrightarrow> R t' = R t"
  shows "fold (\<lambda>t m. m(name t \<mapsto> R t)) ts out (name t) = Some (R t)"
  using assms
proof (induction ts rule: rev_induct)
  case Nil
  then show ?case by simp
next
  case (snoc a ts)
  have step: "fold (\<lambda>t m. m(name t \<mapsto> R t)) (ts @ [a]) out (name t) =
      ((fold (\<lambda>t m. m(name t \<mapsto> R t)) ts out)(name a \<mapsto> R a)) (name t)"
    by (simp del: fun_upd_apply)
  show ?case
  proof (cases "name a = name t")
    case True
    then have "R a = R t" using snoc.prems(2) [of a] by simp
    then show ?thesis unfolding step using True by simp
  next
    case False
    then have "t \<in> set ts" using snoc.prems(1) by auto
    have "fold (\<lambda>t m. m(name t \<mapsto> R t)) ts out (name t) = Some (R t)"
    proof (rule snoc.IH)
      show "t \<in> set ts" by fact
    next
      fix t' assume "t' \<in> set ts" "name t' = name t"
      then show "R t' = R t" using snoc.prems(2) [of t'] by simp
    qed
    then show ?thesis unfolding step using False by simp
  qed
qed

lemma convert_tasks_ok:
  assumes "\<And>t. t \<in> set ts \<Longrightarrow> task_datasets (name t) \<noteq> None"
  shows "convert_tasks fc task_datasets (Some ls) ts cds =
           (map (\<lambda>t. FeatureConvert (name t)) ts,
            Inr (fold (\<lambda>t m. m(name t \<mapsto> enumerate 0 (fc (the (task_datasets (name t))) ls)))
                   ts cds))"
  using assms
proof (induction ts arbitrary: cds)
  case Nil
  show ?case by simp
next
  case (Cons t ts)
  obtain raw where raw: "task_datasets (name t) = Some raw" using Cons.prems [of t] by auto
  have rest: "convert_tasks fc task_datasets (Some ls) ts cds' =
      (map (\<lambda>t. FeatureConvert (name t)) ts,
       Inr (fold (\<lambda>t m. m(name t \<mapsto> enumerate 0 (fc (the (task_datasets (name t))) ls)))
              ts cds'))" for cds'
  proof (rule Cons.IH)
    fix t' assume "t' \<in> set ts"
    then show "task_datasets (name t') \<noteq> None" using Cons.prems [of t'] by simp
  qed
  show ?case by (simp add: lookup_def raw rest del: fun_upd_apply)
qed

lemma convert_tasks_unbound:
  assumes "task_datasets (name t) \<noteq> None"
  shows "convert_tasks fc task_datasets None (t # ts) cds = ([], Inl UnboundLocalError)"
  using assms by (auto simp: lookup_def)

lemma reconcile_equal:
  assumes "map_of sl ''inputs'' = Some i" "map_of ml ''inputs'' = Some i"
    "map_of sl ''targets'' = Some t" "map_of ml ''targets'' = Some t"
  shows "reconcile_lengths (Some sl) ml = ([], Inr None)"
  using assms by (simp add: reconcile_lengths_def lengths_less_def lengths_greater_def lookup_def)

lemma reconcile_wasted:
  assumes "map_of sl ''inputs'' = Some si" "map_of ml ''inputs'' = Some mi"
    "map_of sl ''targets'' = Some st" "map_of ml ''targets'' = Some mt"
    "mi \<le> si" "mt \<le> st" "mi < si \<or> mt < st"
  shows "reconcile_lengths (Some sl) ml = ([LogWarningWasted sl ml], Inr (Some sl))"
  using assms by (auto simp: reconcile_lengths_def lengths_less_def lengths_greater_def lookup_def)

lemma reconcile_insufficient:
  assumes "map_of sl ''inputs'' = Some si" "map_of ml ''inputs'' = Some mi"
    "map_of sl ''targets'' = Some st" "map_of ml ''targets'' = Some mt"
    "si < mi \<or> st < mt"
  shows "reconcile_lengths (Some sl) ml = ([LogWarningInsufficient sl ml], Inr (Some sl))"
  using assms by (auto simp: reconcile_lengths_def lengths_less_def lengths_greater_def lookup_def)

lemma init_equal_lengths:
  assumes "get_targets_and_examples (t # ts) = (ce, ct, tds, ml)"
    and "tds (name t) \<noteq> None"
    and "map_of sl ''inputs'' = Some i" "map_of ml ''inputs'' = Some i"
    and "map_of sl ''targets'' = Some tg" "map_of ml ''targets'' = Some tg"
  shows "init (t # ts) get_targets_and_examples fc (Some sl) sd = ([], Inl UnboundLocalError)"
proof -
  have r: "reconcile_lengths (Some sl) ml = ([], Inr None)"
    using assms(3-6) by (rule reconcile_equal)
  have c: "convert_tasks fc tds None (t # ts) Map.empty = ([], Inl UnboundLocalError)"
    using assms(2) by (rule convert_tasks_unbound)
  have "init (t # ts) get_targets_and_examples fc (Some sl) sd =
      eff_bind (reconcile_lengths (Some sl) ml) (\<lambda>lens.
      eff_bind (convert_tasks fc tds lens (t # ts) Map.empty) (\<lambda>cds.
        ([], Inr \<lparr>attr_eval_tasks = t # ts, attr_cached_ds = Some cds,
                  attr_cached_examples = Some ce, attr_cached_targets = Some ct,
                  attr_summary_writer = (if truthy sd then sd else None)\<rparr>)))"
    unfolding init_def assms(1) by simp
  also have "\<dots> = ([], Inl UnboundLocalError)"
    unfolding r eff_bind_Inr c by simp
  finally show ?thesis .
qed

text \<open>
  C2: supplied lengths that equal the observed maxima on both features. For the task above,
  whose maxima are 10 and 5, constructing the evaluator with the lengths 10 and 5 raises
  \<open>UnboundLocalError\<close>: no branch of lines 108-128 assigns \<open>lengths\<close>, and line 133
  reads it.
\<close>

theorem init_equal_lengths_unbound:
  "init [toy_task] toy_get_targets_and_examples toy_feature_converter
     (Some [(''inputs'', 10), (''targets'', 5)]) None =
   ([], Inl UnboundLocalError)"
  by (simp add: init_def toy_get_targets_and_examples_def reconcile_lengths_def
      lengths_less_def lengths_greater_def lookup_def toy_task_def)

text \<open>
  C8, as stated, fails: with the maxima 10 and 5 and the supplied lengths 20 and 3, the
  first \<open>elif\<close> holds, the constructor logs the truncation warning only, and never
  reaches the comparison of line 120.
\<close>

theorem init_wasted_skipped_counterexample:
  "init [toy_task] toy_get_targets_and_examples toy_feature_converter
     (Some [(''inputs'', 20), (''targets'', 3)]) None =
   ([LogWarningInsufficient [(''inputs'', 20), (''targets'', 3)]
       [(''inputs'', 10), (''targets'', 5)],
     FeatureConvert ''toy''],
    Inr \<lparr>attr_eval_tasks = [toy_task],
         attr_cached_ds = Some [''toy'' \<mapsto> enumerate 0 [''f0'', ''f1'', ''f2'']],
         attr_cached_examples = Some [''toy'' \<mapsto> [''e0'', ''e1'', ''e2'']],
         attr_cached_targets = Some [''toy'' \<mapsto> [''a'', ''b'', ''c'']],
         attr_summary_writer = None\<rparr>)"
  by (simp add: init_def toy_get_targets_and_examples_def reconcile_lengths_def
      lengths_less_def lengths_greater_def lookup_def toy_task_def toy_feature_converter_def
      truthy_def)

text \<open>
  C8, amended: when there are active tasks, no supplied length is less than the observed
  maximum of its feature and some supplied length is greater, the constructor succeeds,
  logs the wasted-computation warning and no other warning, and converts the dataset of
  every task with the supplied lengths.
\<close>

theorem init_wasted_warning:
  assumes "valid_tasks \<noteq> []"
    and "get_targets_and_examples valid_tasks = (ce, ct, tds, ml)"
    and "\<And>t. t \<in> set valid_tasks \<Longrightarrow> tds (name t) \<noteq> None"
    and "map_of sl ''inputs'' = Some si" "map_of ml ''inputs'' = Some mi"
    and "map_of sl ''targets'' = Some st" "map_of ml ''targets'' = Some mt"
    and "mi \<le> si" "mt \<le> st" "mi < si \<or> mt < st"
  shows "\<exists>cds.
           init valid_tasks get_targets_and_examples fc (Some sl) sd =
             (LogWarningWasted sl ml # map (\<lambda>t. FeatureConvert (name t)) valid_tasks,
              Inr \<lparr>attr_eval_tasks = valid_tasks, attr_cached_ds = Some cds,
                   attr_cached_examples = Some ce, attr_cached_targets = Some ct,
                   attr_summary_writer = (if truthy sd then sd else None)\<rparr>) \<and>
           (\<forall>t \<in> set valid_tasks.
              cds (name t) = Some (enumerate 0 (fc (the (tds (name t))) sl)))"
proof -
  let ?R = "\<lambda>t. enumerate 0 (fc (the (tds (name t))) sl)"
  let ?cds = "fold (\<lambda>t m. m(name t \<mapsto> ?R t)) valid_tasks Map.empty"
  have c: "convert_tasks fc tds (Some sl) valid_tasks Map.empty =
      (map (\<lambda>t. FeatureConvert (name t)) valid_tasks, Inr ?cds)"
    by (rule convert_tasks_ok) (rule assms(3))
  have i: "init valid_tasks get_targets_and_examples fc (Some sl) sd =
      (LogWarningWasted sl ml # map (\<lambda>t. FeatureConvert (name t)) valid_tasks,
       Inr \<lparr>attr_eval_tasks = valid_tasks, attr_cached_ds = Some ?cds,
            attr_cached_examples = Some ce, attr_cached_targets = Some ct,
            attr_summary_writer = (if truthy sd then sd else None)\<rparr>)"
    using assms(1)
    by (simp add: init_def assms(2) reconcile_wasted [OF assms(4-10)] c del: fun_upd_apply)
  have l: "?cds (name t) = Some (?R t)" if "t \<in> set valid_tasks" for t
    using that by (rule fold_upd_same_value) simp
  show ?thesis
  proof (intro exI conjI ballI)
    show "init valid_tasks get_targets_and_examples fc (Some sl) sd =
      (LogWarningWasted sl ml # map (\<lambda>t. FeatureConvert (name t)) valid_tasks,
       Inr \<lparr>attr_eval_tasks = valid_tasks, attr_cached_ds = Some ?cds,
            attr_cached_examples = Some ce, attr_cached_targets = Some ct,
            attr_summary_writer = (if truthy sd then sd else None)\<rparr>)"
      by (rule i)
  next
    fix t assume "t \<in> set valid_tasks"
    then show "?cds (name t) = Some (?R t)" by (rule l)
  qed
qed

text \<open>
  C4: when no task has a valid split and a metric function, the constructor logs that
  evaluation is skipped and returns an evaluator on which \<open>evaluate\<close> with
  \<open>compute_metrics\<close> true returns the pair of an empty mapping of outputs and an empty
  mapping of metrics, and does nothing else.
\<close>

theorem evaluate_no_active_task:
  "\<exists>ev. init [] get_targets_and_examples fc sl sd = ([LogWarningNoEvalTask], Inr ev) \<and>
        evaluate ev True step predict_fn = ([], Inr (Map.empty, Some Map.empty))"
proof -
  let ?ev = "\<lparr>attr_eval_tasks = [], attr_cached_ds = None, attr_cached_examples = None,
              attr_cached_targets = None, attr_summary_writer = None\<rparr>"
  have "init [] get_targets_and_examples fc sl sd = ([LogWarningNoEvalTask], Inr ?ev)"
    by (simp add: init_def)
  moreover have "evaluate ?ev True step predict_fn = ([], Inr (Map.empty, Some Map.empty))"
    by (simp add: evaluate_def eval_tasks_def)
  ultimately show ?thesis by (intro exI conjI)
qed

text \<open>The amended C8 at the lengths 20 and 5, against the maxima 10 and 5.\<close>

theorem init_wasted_warning_witness:
  "init [toy_task] toy_get_targets_and_examples toy_feature_converter
     (Some [(''inputs'', 20), (''targets'', 5)]) None =
   ([LogWarningWasted [(''inputs'', 20), (''targets'', 5)] [(''inputs'', 10), (''targets'', 5)],
     FeatureConvert ''toy''],
    Inr \<lparr>attr_eval_tasks = [toy_task],
         attr_cached_ds = Some [''toy'' \<mapsto> enumerate 0 [''f0'', ''f1'', ''f2'']],
         attr_cached_examples = Some [''toy'' \<mapsto> [''e0'', ''e1'', ''e2'']],
         attr_cached_targets = Some [''toy'' \<mapsto> [''a'', ''b'', ''c'']],
         attr_summary_writer = None\<rparr>)"
proof -
  let ?sl = "[(''inputs'', 20), (''targets'', 5)] :: lengths"
  let ?ml = "[(''inputs'', 10), (''targets'', 5)] :: lengths"
  let ?tds = "[''toy'' \<mapsto> [''e0'', ''e1'', ''e2'']]"
  have g: "toy_get_targets_and_examples [toy_task] =
      ([''toy'' \<mapsto> [''e0'', ''e1'', ''e2'']], [''toy'' \<mapsto> [''a'', ''b'', ''c'']], ?tds, ?ml)"
    by (simp add: toy_get_targets_and_examples_def)
  have d: "?tds (name t) \<noteq> None" if "t \<in> set [toy_task]" for t
    using that by (simp add: toy_task_def)
  have n: "[toy_task] \<noteq> []" by simp
  have "\<exists>cds.
      init [toy_task] toy_get_targets_and_examples toy_feature_converter (Some ?sl) None =
        (LogWarningWasted ?sl ?ml # map (\<lambda>t. FeatureConvert (name t)) [toy_task],
         Inr \<lparr>attr_eval_tasks = [toy_task], attr_cached_ds = Some cds,
              attr_cached_examples = Some [''toy'' \<mapsto> [''e0'', ''e1'', ''e2'']],
              attr_cached_targets = Some [''toy'' \<mapsto> [''a'', ''b'', ''c'']],
              attr_summary_writer = (if truthy None then None else None)\<rparr>) \<and>
      (\<forall>t \<in> set [toy_task].
         cds (name t) = Some (enumerate 0 (toy_feature_converter (the (?tds (name t))) ?sl)))"
  proof (rule init_wasted_warning [where valid_tasks = "[toy_task]"
        and get_targets_and_examples = toy_get_targets_and_examples
        and tds = ?tds and ml = ?ml and sl = ?sl and si = 20 and mi = 10 and st = 5 and mt = 5
        and fc = toy_feature_converter and sd = None])
    show "[toy_task] \<noteq> []" by (rule n)
    show "toy_get_targets_and_examples [toy_task] =
      ([''toy'' \<mapsto> [''e0'', ''e1'', ''e2'']], [''toy'' \<mapsto> [''a'', ''b'', ''c'']], ?tds, ?ml)"
      by (rule g)
    show "?tds (name t) \<noteq> None" if "t \<in> set [toy_task]" for t using that by (rule d)
    show "map_of ?sl ''inputs'' = Some 20" by simp
    show "map_of ?ml ''inputs'' = Some 10" by simp
    show "map_of ?sl ''targets'' = Some 5" by simp
    show "map_of ?ml ''targets'' = Some 5" by simp
    show "(10::int) \<le> 20" by simp
    show "(5::int) \<le> 5" by simp
    show "(10::int) < 20 \<or> (5::int) < 5" by simp
  qed
  then obtain cds where
    i: "init [toy_task] toy_get_targets_and_examples toy_feature_converter (Some ?sl) None =
        (LogWarningWasted ?sl ?ml # map (\<lambda>t. FeatureConvert (name t)) [toy_task],
         Inr \<lparr>attr_eval_tasks = [toy_task], attr_cached_ds = Some cds,
              attr_cached_examples = Some [''toy'' \<mapsto> [''e0'', ''e1'', ''e2'']],
              attr_cached_targets = Some [''toy'' \<mapsto> [''a'', ''b'', ''c'']],
              attr_summary_writer = (if truthy None then None else None)\<rparr>)"
    by (elim exE conjE)
  have e: "init [toy_task] toy_get_targets_and_examples toy_feature_converter (Some ?sl) None =
      ([LogWarningWasted ?sl ?ml, FeatureConvert ''toy''],
       Inr \<lparr>attr_eval_tasks = [toy_task],
            attr_cached_ds = Some [''toy'' \<mapsto> enumerate 0 [''f0'', ''f1'', ''f2'']],
            attr_cached_examples = Some [''toy'' \<mapsto> [''e0'', ''e1'', ''e2'']],
            attr_cached_targets = Some [''toy'' \<mapsto> [''a'', ''b'', ''c'']],
            attr_summary_writer = None\<rparr>)"
    by (simp add: init_def toy_get_targets_and_examples_def reconcile_lengths_def
      lengths_less_def lengths_greater_def lookup_def toy_task_def toy_feature_converter_def
      truthy_def)
  from i e show ?thesis by simp
qed

subsection \<open>Results that the first loop rejects\<close>

lemma task_tokens_Inr:
  assumes "\<exists>toks. task_tokens ev pf t = Inr toks"
  shows "task_tokens ev pf t = Inr (projr (task_tokens ev pf t))"
  using assms by (elim exE) simp

lemma evaluate_predict_fails:
  assumes "eval_tasks ev = pre @ t # post"
    and "\<And>t'. t' \<in> set pre \<Longrightarrow> \<exists>toks. task_tokens ev predict_fn t' = Inr toks"
    and "cached_ds_of ev t = Inr d"
    and "restore_order (predict_fn d) = Inl e"
  shows "evaluate ev compute_metrics step predict_fn =
           (map (\<lambda>t. Predict (name t)) pre @ [Predict (name t)], Inl e)"
proof -
  have "predict_tasks ev predict_fn (pre @ t # post) Map.empty =
      (map (\<lambda>t. Predict (name t)) pre @ [Predict (name t)], Inl e)"
  proof (rule predict_tasks_fail [where R = "\<lambda>t. projr (task_tokens ev predict_fn t)"])
    fix t' assume "t' \<in> set pre"
    then have "\<exists>toks. task_tokens ev predict_fn t' = Inr toks" by (rule assms(2))
    then show "task_tokens ev predict_fn t' = Inr (projr (task_tokens ev predict_fn t'))"
      by (rule task_tokens_Inr)
  next
    show "cached_ds_of ev t = Inr d" by fact
    show "restore_order (predict_fn d) = Inl e" by fact
  qed
  then show ?thesis unfolding evaluate_def assms(1) by (simp only: eff_bind_Inl)
qed

lemma toy_eval_tasks: "eval_tasks toy_evaluator = [] @ toy_task # []"
  by (simp add: eval_tasks_def toy_evaluator_def)

text \<open>
  C3, amended: for every active task, if the first element of the sequence returned by
  \<open>predict_fn\<close> does not have length 2, \<open>evaluate\<close> raises \<open>ValueError\<close> at that
  task (the tasks before it having been processed), whatever \<open>compute_metrics\<close> is, and
  returns no outputs for any task. The elements after the first are not checked.
\<close>

theorem first_element_length_checked:
  assumes "eval_tasks ev = pre @ t # post"
    and "\<And>t'. t' \<in> set pre \<Longrightarrow> \<exists>toks. task_tokens ev predict_fn t' = Inr toks"
    and "cached_ds_of ev t = Inr d"
    and "predict_fn d = first # rest"
    and "length first \<noteq> 2"
  shows "evaluate ev compute_metrics step predict_fn =
           (map (\<lambda>t. Predict (name t)) pre @ [Predict (name t)], Inl ValueError)"
proof (rule evaluate_predict_fails [OF assms(1) _ assms(3)])
  fix t' assume "t' \<in> set pre"
  then show "\<exists>toks. task_tokens ev predict_fn t' = Inr toks" by (rule assms(2))
next
  show "restore_order (predict_fn d) = Inl ValueError"
    unfolding assms(4) restore_order_def using assms(5) by simp
qed

text \<open>The amended C3 on a result whose first element has one component.\<close>

theorem first_element_length_checked_witness:
  "length [PyInt 0] \<noteq> 2 \<and>
   evaluate toy_evaluator True None short_first_predict_fn = ([Predict ''toy''], Inl ValueError)"
proof -
  have l: "length [PyInt 0] \<noteq> 2" by simp
  have p: "short_first_predict_fn [(0, ''f0''), (1, ''f1''), (2, ''f2'')] =
      [PyInt 0] # [[PyInt 1, PyList [2]]]"
    by (simp add: short_first_predict_fn_def)
  have "evaluate toy_evaluator True None short_first_predict_fn =
      (map (\<lambda>t. Predict (name t)) ([] :: (string, string, real) task list) @
         [Predict (name toy_task)], Inl ValueError)"
  proof (rule first_element_length_checked [where pre = "[]" and post = "[]" and t = toy_task
        and d = "[(0, ''f0''), (1, ''f1''), (2, ''f2'')]" and first = "[PyInt 0]"
        and rest = "[[PyInt 1, PyList [2]]]"])
    show "eval_tasks toy_evaluator = [] @ toy_task # []" by (rule toy_eval_tasks)
    show "cached_ds_of toy_evaluator toy_task = Inr [(0, ''f0''), (1, ''f1''), (2, ''f2'')]"
      by (rule toy_cached_ds_of)
    show "short_first_predict_fn [(0, ''f0''), (1, ''f1''), (2, ''f2'')] =
        [PyInt 0] # [[PyInt 1, PyList [2]]]" by (rule p)
    show "length [PyInt 0] \<noteq> 2" by (rule l)
    show "\<exists>toks. task_tokens toy_evaluator short_first_predict_fn t' = Inr toks"
      if "t' \<in> set []" for t' using that by simp
  qed
  then show ?thesis using l by (simp add: toy_task_def)
qed

text \<open>
  C3, as stated, fails: a result whose second element has three components passes the check
  of line 208, and \<open>evaluate\<close> returns outputs in which the third component is dropped.
\<close>

theorem later_element_unchecked_counterexample:
  "length [PyInt 1, PyList [2], PyInt 9] \<noteq> 2 \<and>
   malformed_predict_fn [(0, ''f0''), (1, ''f1''), (2, ''f2'')] =
     [[PyInt 0, PyList [1]], [PyInt 1, PyList [2], PyInt 9]] \<and>
   evaluate toy_evaluator False None malformed_predict_fn =
     ([Predict ''toy''], Inr ([''toy'' \<mapsto> [PyList [1], PyList [2]]], None))"
  by (simp add: evaluate_def eval_tasks_def toy_evaluator_def toy_task_def cached_ds_of_def
      cached_ds_def getattr_def lookup_def malformed_predict_fn_def restore_order_def
      sorted_by_first_def getitem_def)

text \<open>
  C9: line 208 reads the first element of the result before anything else is checked. If
  \<open>predict_fn\<close> returns an empty sequence for an active task (the tasks before it having
  been processed), \<open>evaluate\<close> raises \<open>IndexError\<close> at that task, whatever
  \<open>compute_metrics\<close> is, and returns no outputs.
\<close>

theorem empty_result_index_error:
  assumes "eval_tasks ev = pre @ t # post"
    and "\<And>t'. t' \<in> set pre \<Longrightarrow> \<exists>toks. task_tokens ev predict_fn t' = Inr toks"
    and "cached_ds_of ev t = Inr d"
    and "predict_fn d = []"
  shows "evaluate ev compute_metrics step predict_fn =
           (map (\<lambda>t. Predict (name t)) pre @ [Predict (name t)], Inl IndexError)"
proof (rule evaluate_predict_fails [OF assms(1) _ assms(3)])
  fix t' assume "t' \<in> set pre"
  then show "\<exists>toks. task_tokens ev predict_fn t' = Inr toks" by (rule assms(2))
next
  show "restore_order (predict_fn d) = Inl IndexError"
    unfolding assms(4) restore_order_def by simp
qed

text \<open>C9 on the predictor that returns nothing.\<close>

theorem empty_result_index_error_witness:
  "empty_predict_fn [(0, ''f0''), (1, ''f1''), (2, ''f2'')] = [] \<and>
   evaluate toy_evaluator True None empty_predict_fn = ([Predict ''toy''], Inl IndexError)"
proof -
  have p: "empty_predict_fn [(0, ''f0''), (1, ''f1''), (2, ''f2'')] = []"
    by (simp add: empty_predict_fn_def)
  have "evaluate toy_evaluator True None empty_predict_fn =
      (map (\<lambda>t. Predict (name t)) ([] :: (string, string, real) task list) @
         [Predict (name toy_task)], Inl IndexError)"
  proof (rule empty_result_index_error [where pre = "[]" and post = "[]" and t = toy_task
        and d = "[(0, ''f0''), (1, ''f1''), (2, ''f2'')]"])
    show "eval_tasks toy_evaluator = [] @ toy_task # []" by (rule toy_eval_tasks)
    show "cached_ds_of toy_evaluator toy_task = Inr [(0, ''f0''), (1, ''f1''), (2, ''f2'')]"
      by (rule toy_cached_ds_of)
    show "empty_predict_fn [(0, ''f0''), (1, ''f1''), (2, ''f2'')] = []" by (rule p)
    show "\<exists>toks. task_tokens toy_evaluator empty_predict_fn t' = Inr toks"
      if "t' \<in> set []" for t' using that by simp
  qed
  then show ?thesis using p by (simp add: toy_task_def)
qed


subsection \<open>Evaluation without metrics\<close>








subsection \<open>The second loop: metrics\<close>

lemma snd_decode_outputs:
  "snd (decode_outputs t toks) =
     (if list_all is_token_list toks then Inr (map (\<lambda>tk. decode t (token_ids tk)) toks)
      else Inl TypeError)"
  by (induction t toks rule: decode_outputs.induct) (simp_all add: snd_eff_bind)

lemma snd_log_items:
  "snd (log_items ev s nm items) =
     (if items = [] then Inr ()
      else (case attr_summary_writer ev of None \<Rightarrow> Inl AttributeError | Some w \<Rightarrow> Inr ()))"
proof (induction items)
  case Nil
  show ?case by simp
next
  case (Cons item items)
  obtain n v where item: "item = (n, v)" by (cases item)
  show ?case
    by (cases "attr_summary_writer ev")
      (simp_all add: item summary_writer_def getattr_def snd_eff_bind Cons.IH)
qed

lemma snd_log_eval_results:
  "snd (log_eval_results ev ms step nm) =
     (case attr_summary_writer ev of None \<Rightarrow> Inl AttributeError | Some w \<Rightarrow> Inr ())"
  by (cases "attr_summary_writer ev"; cases step)
    (simp_all add: log_eval_results_def snd_eff_bind snd_log_items summary_writer_def getattr_def)

lemma snd_task_metrics:
  "snd (task_metrics ev step out t) =
     err_bind (cached_examples_of ev t) (\<lambda>exs.
     err_bind (cached_targets_of ev t) (\<lambda>tgts.
     err_bind (lookup out (name t)) (\<lambda>toks.
       if list_all is_token_list toks then
         (case attr_summary_writer ev of
            None \<Rightarrow> Inl AttributeError
          | Some w \<Rightarrow>
              Inr (map (\<lambda>metric_fn. metric_fn tgts (task_predictions t toks exs)) (metric_fns t)))
       else Inl TypeError)))"
proof (cases "cached_examples_of ev t")
  case (Inl e)
  then show ?thesis
    by (simp add: task_metrics_def snd_eff_bind cached_examples_of_def)
next
  case exs: (Inr exs)
  show ?thesis
  proof (cases "cached_targets_of ev t")
    case (Inl e)
    then show ?thesis
      using exs by (simp add: task_metrics_def snd_eff_bind cached_examples_of_def
          cached_targets_of_def)
  next
    case tgts: (Inr tgts)
    show ?thesis
    proof (cases "lookup out (name t)")
      case (Inl e)
      then show ?thesis
        using exs tgts by (simp add: task_metrics_def snd_eff_bind cached_examples_of_def
            cached_targets_of_def)
    next
      case toks: (Inr toks)
      show ?thesis
      proof (cases "list_all is_token_list toks")
        case False
        then show ?thesis
          using exs tgts toks by (simp add: task_metrics_def snd_eff_bind cached_examples_of_def
              cached_targets_of_def snd_decode_outputs)
      next
        case True
        then show ?thesis
          using exs tgts toks
          by (cases "attr_summary_writer ev")
            (simp_all add: task_metrics_def snd_eff_bind cached_examples_of_def
              cached_targets_of_def snd_decode_outputs postprocess_outputs_def
              apply_metric_fns_def snd_log_eval_results task_predictions_def zip_map1
              case_prod_unfold comp_def)
      qed
    qed
  qed
qed


lemma metrics_tasks_ok:
  assumes "\<And>t. t \<in> set ts \<Longrightarrow> snd (task_metrics ev step out t) = Inr (M t)"
  shows "snd (metrics_tasks ev step out ts am) = Inr (fold (\<lambda>t m. m(name t \<mapsto> M t)) ts am)"
  using assms
proof (induction ts arbitrary: am)
  case Nil
  show ?case by simp
next
  case (Cons t ts)
  have t: "snd (task_metrics ev step out t) = Inr (M t)" using Cons.prems [of t] by simp
  have rest: "snd (metrics_tasks ev step out ts am') = Inr (fold (\<lambda>t m. m(name t \<mapsto> M t)) ts am')"
    for am'
  proof (rule Cons.IH)
    fix t' assume "t' \<in> set ts"
    then show "snd (task_metrics ev step out t') = Inr (M t')" using Cons.prems [of t'] by simp
  qed
  show ?case by (simp add: snd_eff_bind t rest del: fun_upd_apply)
qed

lemma snd_evaluate_True:
  "snd (evaluate ev True step pf) =
     (case snd (predict_tasks ev pf (eval_tasks ev) Map.empty) of
        Inl e \<Rightarrow> Inl e
      | Inr outs \<Rightarrow>
          (case snd (metrics_tasks ev step outs (eval_tasks ev) Map.empty) of
             Inl e \<Rightarrow> Inl e
           | Inr ms \<Rightarrow> Inr (outs, Some ms)))"
  by (simp add: evaluate_def snd_eff_bind split: sum.splits)







lemma toy_distinct: "distinct (map name (eval_tasks toy_evaluator))"
  by (simp add: eval_tasks_def toy_evaluator_def)

lemma toy_cached_examples_of:
  "cached_examples_of toy_evaluator toy_task = Inr [''e0'', ''e1'', ''e2'']"
  by (simp add: cached_examples_of_def cached_examples_def getattr_def lookup_def
      toy_evaluator_def toy_task_def)

lemma toy_cached_targets_of:
  "cached_targets_of toy_evaluator toy_task = Inr [''a'', ''b'', ''c'']"
  by (simp add: cached_targets_of_def cached_targets_def getattr_def lookup_def
      toy_evaluator_def toy_task_def)






lemma is_pair_token_list: "is_pair x \<Longrightarrow> is_token_list (tokens_of x)"
  by (induction x rule: is_pair.induct) simp_all

lemma length_task_predictions:
  "length (task_predictions t toks exs) = min (length toks) (length exs)"
  by (simp add: task_predictions_def)

lemma snd_evaluate_False:
  "snd (evaluate ev False step pf) =
     (case snd (predict_tasks ev pf (eval_tasks ev) Map.empty) of
        Inl e \<Rightarrow> Inl e
      | Inr outs \<Rightarrow> Inr (outs, None))"
  by (simp add: evaluate_def snd_eff_bind split: sum.splits)

text \<open>
  C10: the number of pairs returned by \<open>predict_fn\<close> and their indices are compared with
  nothing. Whenever the result for every active task is a non-empty sequence of (index,
  tokens) pairs, of any length and with any indices, \<open>evaluate\<close> returns without error
  (with metrics, provided the summary writer exists, which the logging of the metrics
  reads); the outputs of a task are the token sequences in ascending order of the indices,
  and its predictions pair the decoded outputs with the cached examples up to the end of
  the shorter of the two sequences.
\<close>

theorem result_size_not_validated:
  assumes "distinct (map name (eval_tasks ev))"
    and "attr_summary_writer ev = Some w"
    and "\<And>t. t \<in> set (eval_tasks ev) \<Longrightarrow>
           \<exists>d exs tgts. cached_ds_of ev t = Inr d \<and> predict_fn d \<noteq> [] \<and>
             list_all is_pair (predict_fn d) \<and>
             cached_examples_of ev t = Inr exs \<and> cached_targets_of ev t = Inr tgts"
  shows "\<exists>outs ms.
           snd (evaluate ev False step predict_fn) = Inr (outs, None) \<and>
           snd (evaluate ev True step predict_fn) = Inr (outs, Some ms) \<and>
           (\<forall>t \<in> set (eval_tasks ev). \<forall>d exs tgts.
              cached_ds_of ev t = Inr d \<longrightarrow> cached_examples_of ev t = Inr exs \<longrightarrow>
              cached_targets_of ev t = Inr tgts \<longrightarrow>
                outs (name t) = Some (map tokens_of (sort_key index_of (predict_fn d))) \<and>
                ms (name t) =
                  Some (map (\<lambda>metric_fn. metric_fn tgts
                               (task_predictions t
                                  (map tokens_of (sort_key index_of (predict_fn d))) exs))
                          (metric_fns t)) \<and>
                length (task_predictions t
                          (map tokens_of (sort_key index_of (predict_fn d))) exs) =
                  min (length (predict_fn d)) (length exs))"
proof -
  let ?R = "\<lambda>t. map tokens_of (sort_key index_of (predict_fn (projr (cached_ds_of ev t))))"
  let ?M = "\<lambda>t. map (\<lambda>metric_fn. metric_fn (projr (cached_targets_of ev t))
                 (task_predictions t (?R t) (projr (cached_examples_of ev t)))) (metric_fns t)"
  let ?outs = "fold (\<lambda>t m. m(name t \<mapsto> ?R t)) (eval_tasks ev) Map.empty"
  let ?ms = "fold (\<lambda>t m. m(name t \<mapsto> ?M t)) (eval_tasks ev) Map.empty"
  have tok: "task_tokens ev predict_fn t = Inr (?R t)" if "t \<in> set (eval_tasks ev)" for t
  proof -
    from assms(3) [OF that] obtain d where d: "cached_ds_of ev t = Inr d"
      and ne: "predict_fn d \<noteq> []" and pairs: "list_all is_pair (predict_fn d)" by blast
    show ?thesis
      by (simp add: task_tokens_def d restore_order_pairs [OF ne pairs])
  qed
  have p: "predict_tasks ev predict_fn (eval_tasks ev) Map.empty =
      (map (\<lambda>t. Predict (name t)) (eval_tasks ev), Inr ?outs)"
    by (rule predict_tasks_ok) (rule tok)
  have o: "?outs (name t) = Some (?R t)" if "t \<in> set (eval_tasks ev)" for t
    using assms(1) that by (rule fold_upd_distinct)
  have tm: "snd (task_metrics ev step ?outs t) = Inr (?M t)" if "t \<in> set (eval_tasks ev)" for t
  proof -
    from assms(3) [OF that] obtain d exs tgts where d: "cached_ds_of ev t = Inr d"
      and pairs: "list_all is_pair (predict_fn d)"
      and e: "cached_examples_of ev t = Inr exs" and g: "cached_targets_of ev t = Inr tgts"
      by blast
    have l: "lookup ?outs (name t) = Inr (?R t)" unfolding lookup_def o [OF that] by simp
    have "list_all is_pair (sort_key index_of (predict_fn d))"
      using pairs by (simp add: list_all_iff)
    then have tl: "list_all is_token_list (?R t)"
      by (simp add: d list_all_iff is_pair_token_list)
    show ?thesis
      unfolding snd_task_metrics l using tl by (simp add: e g assms(2))
  qed
  have m: "snd (metrics_tasks ev step ?outs (eval_tasks ev) Map.empty) = Inr ?ms"
    by (rule metrics_tasks_ok) (rule tm)
  have mm: "?ms (name t) = Some (?M t)" if "t \<in> set (eval_tasks ev)" for t
    using assms(1) that by (rule fold_upd_distinct)
  have eF: "snd (evaluate ev False step predict_fn) = Inr (?outs, None)"
    unfolding snd_evaluate_False p by simp
  have eT: "snd (evaluate ev True step predict_fn) = Inr (?outs, Some ?ms)"
    unfolding snd_evaluate_True p by (simp add: m)
  have each: "?outs (name t) = Some (map tokens_of (sort_key index_of (predict_fn d))) \<and>
      ?ms (name t) =
        Some (map (\<lambda>metric_fn. metric_fn tgts
                     (task_predictions t (map tokens_of (sort_key index_of (predict_fn d))) exs))
                (metric_fns t)) \<and>
      length (task_predictions t (map tokens_of (sort_key index_of (predict_fn d))) exs) =
        min (length (predict_fn d)) (length exs)"
    if "t \<in> set (eval_tasks ev)" "cached_ds_of ev t = Inr d"
      "cached_examples_of ev t = Inr exs" "cached_targets_of ev t = Inr tgts" for t d exs tgts
    using o [OF that(1)] mm [OF that(1)] by (simp add: that(2-4) length_task_predictions)
  show ?thesis
  proof (intro exI conjI ballI allI impI)
    show "snd (evaluate ev False step predict_fn) = Inr (?outs, None)" by (rule eF)
    show "snd (evaluate ev True step predict_fn) = Inr (?outs, Some ?ms)" by (rule eT)
  next
    fix t d exs tgts
    assume a: "t \<in> set (eval_tasks ev)" "cached_ds_of ev t = Inr d"
      "cached_examples_of ev t = Inr exs" "cached_targets_of ev t = Inr tgts"
    note e = each [OF a]
    show "?outs (name t) = Some (map tokens_of (sort_key index_of (predict_fn d)))"
      using e by (rule conjunct1)
    show "?ms (name t) =
        Some (map (\<lambda>metric_fn. metric_fn tgts
                     (task_predictions t (map tokens_of (sort_key index_of (predict_fn d))) exs))
                (metric_fns t))"
      using e by (elim conjE)
    show "length (task_predictions t (map tokens_of (sort_key index_of (predict_fn d))) exs) =
        min (length (predict_fn d)) (length exs)"
      using e by (elim conjE)
  qed
qed

lemma toy_extra_sorted:
  "map tokens_of (sort_key index_of (extra_predict_fn d)) =
     [PyList [24], PyList [1], PyList [2], PyList [3]]"
  by (simp add: extra_predict_fn_def)

lemma toy_extra_predictions:
  "task_predictions toy_task [PyList [24], PyList [1], PyList [2], PyList [3]]
     [''e0'', ''e1'', ''e2''] = [''x'', ''a'', ''b'']"
  by (simp add: task_predictions_def toy_task_def toy_decode_def)

lemma exact_match_none:
  "exact_match [''a'', ''b'', ''c''] [''x'', ''a'', ''b''] = [(''accuracy'', 0)]"
  by (simp add: exact_match_def)

text \<open>
  C10 on the small task, which has three cached examples: four pairs, with the indices
  99, 0, 1 and -5, are accepted, and the predictions are the first three decoded outputs.
\<close>

theorem result_size_not_validated_witness:
  "length (extra_predict_fn [(0, ''f0''), (1, ''f1''), (2, ''f2'')]) = 4 \<and>
   (\<exists>outs ms.
      snd (evaluate toy_evaluator False None extra_predict_fn) = Inr (outs, None) \<and>
      snd (evaluate toy_evaluator True None extra_predict_fn) = Inr (outs, Some ms) \<and>
      outs ''toy'' = Some [PyList [24], PyList [1], PyList [2], PyList [3]] \<and>
      ms ''toy'' = Some [[(''accuracy'', 0)]] \<and>
      length (task_predictions toy_task [PyList [24], PyList [1], PyList [2], PyList [3]]
                [''e0'', ''e1'', ''e2'']) = 3)"
proof -
  let ?d = "[(0, ''f0''), (1, ''f1''), (2, ''f2'')] :: (nat \<times> string) list"
  let ?exs = "[''e0'', ''e1'', ''e2'']"
  let ?tgts = "[''a'', ''b'', ''c'']"
  have len: "length (extra_predict_fn ?d) = 4" by (simp add: extra_predict_fn_def)
  have t: "toy_task \<in> set (eval_tasks toy_evaluator)"
    by (simp add: eval_tasks_def toy_evaluator_def)
  have n: "name toy_task = ''toy''" by (simp add: toy_task_def)
  have f: "metric_fns toy_task = [exact_match]" by (simp add: toy_task_def)
  have "\<exists>outs ms.
           snd (evaluate toy_evaluator False None extra_predict_fn) = Inr (outs, None) \<and>
           snd (evaluate toy_evaluator True None extra_predict_fn) = Inr (outs, Some ms) \<and>
           (\<forall>t \<in> set (eval_tasks toy_evaluator). \<forall>d exs tgts.
              cached_ds_of toy_evaluator t = Inr d \<longrightarrow>
              cached_examples_of toy_evaluator t = Inr exs \<longrightarrow>
              cached_targets_of toy_evaluator t = Inr tgts \<longrightarrow>
                outs (name t) = Some (map tokens_of (sort_key index_of (extra_predict_fn d))) \<and>
                ms (name t) =
                  Some (map (\<lambda>metric_fn. metric_fn tgts
                               (task_predictions t
                                  (map tokens_of (sort_key index_of (extra_predict_fn d))) exs))
                          (metric_fns t)) \<and>
                length (task_predictions t
                          (map tokens_of (sort_key index_of (extra_predict_fn d))) exs) =
                  min (length (extra_predict_fn d)) (length exs))"
  proof (rule result_size_not_validated [where w = "''summaries''"])
    show "distinct (map name (eval_tasks toy_evaluator))" by (rule toy_distinct)
    show "attr_summary_writer toy_evaluator = Some ''summaries''"
      by (simp add: toy_evaluator_def)
    fix t assume "t \<in> set (eval_tasks toy_evaluator)"
    then have tt: "t = toy_task" by (simp add: eval_tasks_def toy_evaluator_def)
    have "cached_ds_of toy_evaluator toy_task = Inr ?d \<and> extra_predict_fn ?d \<noteq> [] \<and>
        list_all is_pair (extra_predict_fn ?d) \<and>
        cached_examples_of toy_evaluator toy_task = Inr ?exs \<and>
        cached_targets_of toy_evaluator toy_task = Inr ?tgts"
      by (simp add: toy_cached_ds_of toy_cached_examples_of toy_cached_targets_of
          extra_predict_fn_def)
    then show "\<exists>d exs tgts. cached_ds_of toy_evaluator t = Inr d \<and> extra_predict_fn d \<noteq> [] \<and>
        list_all is_pair (extra_predict_fn d) \<and>
        cached_examples_of toy_evaluator t = Inr exs \<and>
        cached_targets_of toy_evaluator t = Inr tgts"
      unfolding tt by (intro exI)
  qed
  then obtain outs ms where
    eF: "snd (evaluate toy_evaluator False None extra_predict_fn) = Inr (outs, None)" and
    eT: "snd (evaluate toy_evaluator True None extra_predict_fn) = Inr (outs, Some ms)" and
    all: "\<forall>t \<in> set (eval_tasks toy_evaluator). \<forall>d exs tgts.
              cached_ds_of toy_evaluator t = Inr d \<longrightarrow>
              cached_examples_of toy_evaluator t = Inr exs \<longrightarrow>
              cached_targets_of toy_evaluator t = Inr tgts \<longrightarrow>
                outs (name t) = Some (map tokens_of (sort_key index_of (extra_predict_fn d))) \<and>
                ms (name t) =
                  Some (map (\<lambda>metric_fn. metric_fn tgts
                               (task_predictions t
                                  (map tokens_of (sort_key index_of (extra_predict_fn d))) exs))
                          (metric_fns t)) \<and>
                length (task_predictions t
                          (map tokens_of (sort_key index_of (extra_predict_fn d))) exs) =
                  min (length (extra_predict_fn d)) (length exs)"
    by (elim exE conjE)
  note c = all [rule_format, OF t toy_cached_ds_of toy_cached_examples_of toy_cached_targets_of]
  have o: "outs ''toy'' = Some [PyList [24], PyList [1], PyList [2], PyList [3]]"
    using c [THEN conjunct1] by (simp only: n toy_extra_sorted)
  have m: "ms ''toy'' = Some [[(''accuracy'', 0)]]"
    using c [THEN conjunct2, THEN conjunct1]
    by (simp only: n f toy_extra_sorted toy_extra_predictions list.map exact_match_none)
  have l: "length (task_predictions toy_task [PyList [24], PyList [1], PyList [2], PyList [3]]
                [''e0'', ''e1'', ''e2'']) = 3"
    by (simp add: toy_extra_predictions)
  show ?thesis using len eF eT o m l by (intro conjI exI)
qed

subsection \<open>The caches are built by the constructor only\<close>


















end
